theory Spec2Isabelle
  imports Main
begin

section \<open>Data model of the job tracker\<close>

text \<open>
  The module \<^verbatim>\<open>shared/job_tracker.py\<close> holds one class, \<^verbatim>\<open>SimpleJobTracker\<close>, with a
  class attribute \<^verbatim>\<open>_pool\<close> and two class methods, \<^verbatim>\<open>get_pool\<close> and
  \<^verbatim>\<open>update_status\<close>. The embedding threads a \<open>world\<close> through both: the class
  attribute, the committed rows of table \<^verbatim>\<open>pipeline_jobs\<close>, the connections that are
  out of the pool, and the list of effects that have happened so far.
\<close>

subsection \<open>JSON values and the metadata column\<close>

text \<open>
  The values a metadata dictionary carries, as \<^verbatim>\<open>json.dumps\<close> writes them. Numbers are
  integers here; a nested object keeps its pairs in the order they were written.
\<close>

datatype json =
    JNull
  | JBool bool
  | JNum int
  | JStr string
  | JArr "json list"
  | JObj "(string \<times> json) list"

text \<open>
  Modelled from the spec: the table \<^verbatim>\<open>pipeline_jobs\<close> is not created in this file; the
  spec gives it the key \<^verbatim>\<open>job_id\<close> (unique) and a JSON-typed \<^verbatim>\<open>metadata\<close> column that
  supports the merge operator \<^verbatim>\<open>||\<close>, which is PostgreSQL's \<^verbatim>\<open>jsonb\<close>. A stored
  object is a finite map from keys to values; \<open>None\<close> in a column is SQL NULL.
\<close>

type_synonym jsonb_object = "string \<rightharpoonup> json"

record pipeline_job =
  job_id :: string
  series_id :: string
  status :: string
  stage :: string
  error_message :: "string option"
  metadata :: "jsonb_object option"
  updated_at :: int

text \<open>
  The arguments of \<^verbatim>\<open>update_status\<close>. A Python \<^verbatim>\<open>dict\<close> with string keys is the list of
  its items in insertion order (keys distinct); \<^verbatim>\<open>None\<close> is \<open>None\<close>.
\<close>

record update_args =
  arg_job_id :: string
  arg_series_id :: string
  arg_status :: string
  arg_stage :: string
  arg_error_message :: "string option"
  arg_metadata :: "(string \<times> json) list option"

subsection \<open>The pool, the environment of a call, and the world\<close>

record threaded_connection_pool =
  minconn :: nat
  maxconn :: nat
  host :: string
  port :: int
  database :: string
  user :: string
  password :: string
  connect_timeout :: nat

text \<open>
  The library calls of \<^verbatim>\<open>update_status\<close> that can raise. Each is made at most once in a
  call, so the environment of a call lists the ones that raise in it.
  \<^verbatim>\<open>pool.putconn\<close> is not among them: it is handed a connection that \<^verbatim>\<open>getconn\<close> of the
  same pool returned, and the pool is never closed, which are its two error cases.
\<close>

datatype op =
    OpPoolCtor
  | OpGetConn
  | OpCursor
  | OpDumps
  | OpExecute
  | OpCommit
  | OpCursorClose
  | OpRollback

datatype exn = ValueError | Raised op

text \<open>
  What a call finds around it: the library calls that raise, the process environment, the
  interpreter's cap on the digits \<^verbatim>\<open>int\<close> converts (\<^verbatim>\<open>sys.get_int_max_str_digits()\<close>, 4300
  unless configured, 0 for no cap), the server's \<^verbatim>\<open>NOW()\<close>, and the connection the pool
  hands out.
\<close>

record env =
  faults :: "op list"
  environ :: "string \<rightharpoonup> string"
  int_max_str_digits :: nat
  now :: int
  conn_handle :: nat

datatype event =
    PoolCreated threaded_connection_pool
  | LogPoolInitialized
  | ConnTaken nat
  | CursorOpened
  | Executed
  | Committed
  | CursorClosed
  | LogJobOk string string string
  | LogFailed exn
  | RolledBack nat
  | ConnReturned nat

record world =
  cls_pool :: "threaded_connection_pool option"
  checked_out :: "nat list"
  pipeline_jobs :: "pipeline_job list"
  trace :: "event list"

definition emit :: "event list \<Rightarrow> world \<Rightarrow> world" where
  "emit evs w = w\<lparr>trace := trace w @ evs\<rparr>"

definition raises :: "env \<Rightarrow> op \<Rightarrow> bool" where
  "raises e x = (x \<in> set (faults e))"

subsection \<open>Reading the configuration\<close>

text \<open>
  \<^verbatim>\<open>os.getenv(key, default)\<close>: the variable's value, or the default when it is unset.
\<close>

definition getenv :: "env \<Rightarrow> string \<Rightarrow> string \<Rightarrow> string" where
  "getenv e k d = (case environ e k of None \<Rightarrow> d | Some v \<Rightarrow> v)"

text \<open>
  \<^verbatim>\<open>int(s)\<close> on a string, base ten. White space on either side is dropped: the characters
  9 to 13 and 32, and of the code points above 127 that a \<open>char\<close> can hold, 133 and 160
  (the separators 28 to 31 are not dropped). One sign may lead. The rest is decimal
  digits \<^verbatim>\<open>0\<close> to \<^verbatim>\<open>9\<close>, single underscores allowed between two digits. More digits than
  the interpreter's cap, when there is a cap and the digits are more than 640, is an error.
  Every error is a \<^verbatim>\<open>ValueError\<close>, here \<open>None\<close>.
\<close>

definition py_isspace :: "char \<Rightarrow> bool" where
  "py_isspace c = (of_char c \<in> set [9, 10, 11, 12, 13, 32, 133, 160 :: nat])"

definition py_strip :: "string \<Rightarrow> string" where
  "py_strip s = rev (dropWhile py_isspace (rev (dropWhile py_isspace s)))"

definition digit_val :: "char \<Rightarrow> nat option" where
  "digit_val c = (let n = of_char c :: nat in if 48 \<le> n \<and> n \<le> 57 then Some (n - 48) else None)"

fun py_digits :: "nat \<Rightarrow> bool \<Rightarrow> string \<Rightarrow> nat option" where
  "py_digits acc prev [] = (if prev then Some acc else None)"
| "py_digits acc prev (c # cs) =
     (if c = CHR ''_'' then (if prev \<and> cs \<noteq> [] then py_digits acc False cs else None)
      else (case digit_val c of
              None \<Rightarrow> None
            | Some d \<Rightarrow> py_digits (10 * acc + d) True cs))"

definition digit_count :: "string \<Rightarrow> nat" where
  "digit_count ds = length (filter (\<lambda>c. digit_val c \<noteq> None) ds)"

definition over_cap :: "nat \<Rightarrow> string \<Rightarrow> bool" where
  "over_cap m ds = (640 < digit_count ds \<and> 0 < m \<and> m < digit_count ds)"

definition py_int :: "nat \<Rightarrow> string \<Rightarrow> int option" where
  "py_int m s =
     (case py_strip s of
        [] \<Rightarrow> None
      | c # cs \<Rightarrow>
          if c = CHR ''-'' then
            (if over_cap m cs then None else map_option (\<lambda>n. - int n) (py_digits 0 False cs))
          else if c = CHR ''+'' then
            (if over_cap m cs then None else map_option int (py_digits 0 False cs))
          else
            (if over_cap m (c # cs) then None
             else map_option int (py_digits 0 False (c # cs))))"

subsection \<open>\<^verbatim>\<open>get_pool\<close>\<close>

text \<open>
  Lines 21 to 36. When \<^verbatim>\<open>_pool\<close> is \<^verbatim>\<open>None\<close> the keyword arguments are evaluated (the
  port through \<^verbatim>\<open>int\<close>, which can raise), the pool is constructed (which can raise: it
  opens \<^verbatim>\<open>minconn\<close> connections), stored in the class attribute and a line is logged.
  Otherwise the stored pool is returned and nothing else happens.
\<close>

definition pool_config :: "env \<Rightarrow> int \<Rightarrow> threaded_connection_pool" where
  "pool_config e p =
     \<lparr>minconn = 1, maxconn = 5,
      host = getenv e ''DATABASE_HOST'' ''timescaledb'',
      port = p,
      database = getenv e ''DATABASE_NAME'' ''timeseries'',
      user = getenv e ''DATABASE_USER'' ''tsuser'',
      password = getenv e ''DATABASE_PASSWORD'' ''ts_password'',
      connect_timeout = 10\<rparr>"

definition get_pool :: "env \<Rightarrow> world \<Rightarrow> (exn + threaded_connection_pool) \<times> world" where
  "get_pool e w =
     (case cls_pool w of
        Some pl \<Rightarrow> (Inr pl, w)
      | None \<Rightarrow>
          (case py_int (int_max_str_digits e) (getenv e ''DATABASE_PORT'' ''5432'') of
             None \<Rightarrow> (Inl ValueError, w)
           | Some p \<Rightarrow>
               if raises e OpPoolCtor then (Inl (Raised OpPoolCtor), w)
               else (Inr (pool_config e p),
                     emit [PoolCreated (pool_config e p), LogPoolInitialized]
                       (w\<lparr>cls_pool := Some (pool_config e p)\<rparr>))))"

subsection \<open>The statement\<close>

text \<open>
  The sixth parameter, line 86: \<^verbatim>\<open>json.dumps(metadata) if metadata else None\<close>. The test
  is Python truthiness: \<^verbatim>\<open>None\<close> and the empty dictionary are both false.
\<close>

definition truthy :: "(string \<times> json) list option \<Rightarrow> bool" where
  "truthy md = (case md of None \<Rightarrow> False | Some kvs \<Rightarrow> kvs \<noteq> [])"

text \<open>
  The text \<^verbatim>\<open>json.dumps\<close> writes holds the items in order; read into a \<^verbatim>\<open>jsonb\<close> column
  it is the object of those pairs, a later pair winning over an earlier one of the same key.
\<close>

definition jsonb_in :: "(string \<times> json) list \<Rightarrow> jsonb_object" where
  "jsonb_in kvs = map_of (rev kvs)"

definition metadata_param :: "(string \<times> json) list option \<Rightarrow> jsonb_object option" where
  "metadata_param md =
     (case md of
        None \<Rightarrow> None
      | Some kvs \<Rightarrow> if truthy (Some kvs) then Some (jsonb_in kvs) else None)"

text \<open>
  \<^verbatim>\<open>a || b\<close> on \<^verbatim>\<open>jsonb\<close> objects: NULL when either side is NULL, else the object with the
  keys of both, the right side's value where both have the key.
  \<^verbatim>\<open>COALESCE\<close>: the first argument that is not NULL.
\<close>

definition jsonb_concat :: "jsonb_object option \<Rightarrow> jsonb_object option \<Rightarrow> jsonb_object option" where
  "jsonb_concat x y =
     (case x of
        None \<Rightarrow> None
      | Some m \<Rightarrow> (case y of None \<Rightarrow> None | Some n \<Rightarrow> Some (m ++ n)))"

fun coalesce :: "'a option list \<Rightarrow> 'a option" where
  "coalesce [] = None"
| "coalesce (None # xs) = coalesce xs"
| "coalesce (Some v # xs) = Some v"

text \<open>The row proposed for insertion (\<^verbatim>\<open>EXCLUDED\<close> in the conflict branch), lines 66 to 68.\<close>

definition excluded :: "update_args \<Rightarrow> int \<Rightarrow> pipeline_job" where
  "excluded a t =
     \<lparr>job_id = arg_job_id a, series_id = arg_series_id a, status = arg_status a,
      stage = arg_stage a, error_message = arg_error_message a,
      metadata = metadata_param (arg_metadata a), updated_at = t\<rparr>"

text \<open>\<^verbatim>\<open>DO UPDATE SET\<close>, lines 70 to 79, on the stored row \<open>r\<close>.\<close>

definition do_update :: "pipeline_job \<Rightarrow> pipeline_job \<Rightarrow> int \<Rightarrow> pipeline_job" where
  "do_update r ex t =
     r\<lparr>status := status ex,
       stage := stage ex,
       error_message := error_message ex,
       metadata := coalesce [jsonb_concat (metadata r) (metadata ex), metadata r, metadata ex],
       updated_at := t\<rparr>"

text \<open>
  \<^verbatim>\<open>INSERT ... ON CONFLICT (job_id) DO UPDATE\<close> over the rows of the table: the row with
  the proposed key is updated where it stands; when there is none the proposed row is added.
\<close>

fun insert_on_conflict :: "pipeline_job \<Rightarrow> int \<Rightarrow> pipeline_job list \<Rightarrow> pipeline_job list" where
  "insert_on_conflict ex t [] = [ex]"
| "insert_on_conflict ex t (r # rs) =
     (if job_id r = job_id ex then do_update r ex t # rs
      else r # insert_on_conflict ex t rs)"

subsection \<open>\<^verbatim>\<open>update_status\<close>\<close>

text \<open>
  The \<^verbatim>\<open>try\<close> block, lines 61 to 91. It returns how it ended, the value of the local
  \<^verbatim>\<open>conn\<close> at that point, and the world. The statement runs in the connection's open
  transaction: its rows reach the table at \<^verbatim>\<open>commit\<close> and not before.
\<close>

definition try_block :: "env \<Rightarrow> update_args \<Rightarrow> world \<Rightarrow> (exn + unit) \<times> nat option \<times> world" where
  "try_block e a w =
     (case get_pool e w of
        (Inl x, w1) \<Rightarrow> (Inl x, None, w1)
      | (Inr pl, w1) \<Rightarrow>
          if raises e OpGetConn then (Inl (Raised OpGetConn), None, w1)
          else
            let c = conn_handle e;
                w2 = emit [ConnTaken c] (w1\<lparr>checked_out := c # checked_out w1\<rparr>)
            in
            if raises e OpCursor then (Inl (Raised OpCursor), Some c, w2)
            else
              let w3 = emit [CursorOpened] w2 in
              if truthy (arg_metadata a) \<and> raises e OpDumps
              then (Inl (Raised OpDumps), Some c, w3)
              else if raises e OpExecute then (Inl (Raised OpExecute), Some c, w3)
              else
                let rows = insert_on_conflict (excluded a (now e)) (now e) (pipeline_jobs w3);
                    w4 = emit [Executed] w3
                in
                if raises e OpCommit then (Inl (Raised OpCommit), Some c, w4)
                else
                  let w5 = emit [Committed] (w4\<lparr>pipeline_jobs := rows\<rparr>) in
                  if raises e OpCursorClose then (Inl (Raised OpCursorClose), Some c, w5)
                  else (Inr (), Some c,
                        emit [CursorClosed,
                              LogJobOk (arg_job_id a) (arg_status a) (arg_stage a)] w5))"

text \<open>
  The \<^verbatim>\<open>except Exception\<close> clause, lines 93 to 96: the error is logged, and when \<^verbatim>\<open>conn\<close>
  is set the transaction is rolled back. \<^verbatim>\<open>conn.rollback()\<close> stands unguarded in the
  handler, so when it raises, that exception leaves the clause.
\<close>

definition except_block :: "env \<Rightarrow> (exn + unit) \<Rightarrow> nat option \<Rightarrow> world \<Rightarrow> (exn + unit) \<times> world" where
  "except_block e r conn w =
     (case r of
        Inr u \<Rightarrow> (Inr u, w)
      | Inl x \<Rightarrow>
          let w1 = emit [LogFailed x] w in
          (case conn of
             None \<Rightarrow> (Inr (), w1)
           | Some c \<Rightarrow>
               if raises e OpRollback then (Inl (Raised OpRollback), w1)
               else (Inr (), emit [RolledBack c] w1)))"

text \<open>
  The \<^verbatim>\<open>finally\<close> clause, lines 97 to 99: when \<^verbatim>\<open>conn\<close> is set it goes back to the pool.
  An exception on its way out stays on its way out.
\<close>

definition finally_block :: "nat option \<Rightarrow> (exn + unit) \<times> world \<Rightarrow> (exn + unit) \<times> world" where
  "finally_block conn rw =
     (case conn of
        None \<Rightarrow> rw
      | Some c \<Rightarrow>
          (fst rw, emit [ConnReturned c] ((snd rw)\<lparr>checked_out := remove1 c (checked_out (snd rw))\<rparr>)))"

text \<open>
  The whole method. \<open>Inr ()\<close> is the normal return (of \<^verbatim>\<open>None\<close>); \<open>Inl x\<close> is the
  exception \<open>x\<close> reaching the caller.
\<close>

definition update_status :: "env \<Rightarrow> update_args \<Rightarrow> world \<Rightarrow> (exn + unit) \<times> world" where
  "update_status e a w =
     (case try_block e a w of
        (r, conn, w1) \<Rightarrow> finally_block conn (except_block e r conn w1))"

text \<open>A sequence of calls, one after the other, each with its own environment.\<close>

fun run :: "(env \<times> update_args) list \<Rightarrow> world \<Rightarrow> world" where
  "run [] w = w"
| "run (c # cs) w = run cs (snd (update_status (fst c) (snd c) w))"

subsection \<open>Reading a world\<close>

definition lookup_job :: "string \<Rightarrow> pipeline_job list \<Rightarrow> pipeline_job option" where
  "lookup_job j rs = find (\<lambda>r. job_id r = j) rs"


text \<open>What one call added to the list of effects.\<close>

definition call_trace :: "env \<Rightarrow> update_args \<Rightarrow> world \<Rightarrow> event list" where
  "call_trace e a w = drop (length (trace w)) (trace (snd (update_status e a w)))"

text \<open>The call's write was committed.\<close>

definition commits :: "env \<Rightarrow> update_args \<Rightarrow> world \<Rightarrow> bool" where
  "commits e a w = (Committed \<in> set (call_trace e a w))"

subsection \<open>Counting pools\<close>

fun is_pool_created :: "event \<Rightarrow> bool" where
  "is_pool_created (PoolCreated pl) = True"
| "is_pool_created ev = False"

definition pools_created :: "world \<Rightarrow> nat" where
  "pools_created w = length (filter is_pool_created (trace w))"


subsection \<open>The metadata rule in the spec's words\<close>

text \<open>
  The second definition of the metadata rule, following the spec and not the SQL: the
  metadata a call supplies is its dictionary read as a JSON object (absent when the argument
  is absent); the shallow merge of two objects has the keys of both, the new value where
  the new object has the key and the old value elsewhere; a write with no metadata leaves
  the old metadata, and with no old metadata the new one is stored as it is.
\<close>

definition supplied_metadata :: "update_args \<Rightarrow> jsonb_object option" where
  "supplied_metadata a = map_option jsonb_in (arg_metadata a)"

definition shallow_merge :: "jsonb_object \<Rightarrow> jsonb_object \<Rightarrow> jsonb_object" where
  "shallow_merge old new = (\<lambda>k. case new k of Some v \<Rightarrow> Some v | None \<Rightarrow> old k)"

definition spec_metadata :: "jsonb_object option \<Rightarrow> jsonb_object option \<Rightarrow> jsonb_object option" where
  "spec_metadata old new =
     (case new of
        None \<Rightarrow> old
      | Some n \<Rightarrow> (case old of None \<Rightarrow> Some n | Some m \<Rightarrow> Some (shallow_merge m n)))"

text \<open>The columns of the stored row of a job, when it has one.\<close>

definition stored :: "(pipeline_job \<Rightarrow> 'a) \<Rightarrow> string \<Rightarrow> world \<Rightarrow> 'a option" where
  "stored col j w = map_option col (lookup_job j (pipeline_jobs w))"

subsection \<open>Concrete calls\<close>

text \<open>
  A process that has just started, four environments (two in which every library call
  succeeds, at server times 1000 and 2000; one at server time 900, a server clock that was
  set back; one in which the server connection is lost while the statement runs, so that
  \<^verbatim>\<open>execute\<close> and then \<^verbatim>\<open>rollback\<close> raise), and calls for job \<^verbatim>\<open>job1\<close>.
\<close>

definition world_start :: world where
  "world_start = \<lparr>cls_pool = None, checked_out = [], pipeline_jobs = [], trace = []\<rparr>"

definition env_ok :: env where
  "env_ok =
     \<lparr>faults = [], environ = Map.empty, int_max_str_digits = 4300, now = 1000,
      conn_handle = 1\<rparr>"

definition env_later :: env where
  "env_later =
     \<lparr>faults = [], environ = Map.empty, int_max_str_digits = 4300, now = 2000,
      conn_handle = 1\<rparr>"

definition env_clock_back :: env where
  "env_clock_back =
     \<lparr>faults = [], environ = Map.empty, int_max_str_digits = 4300, now = 900,
      conn_handle = 1\<rparr>"

definition env_conn_lost :: env where
  "env_conn_lost =
     \<lparr>faults = [OpExecute, OpRollback], environ = Map.empty, int_max_str_digits = 4300,
      now = 2000, conn_handle = 1\<rparr>"

definition env_pool_exhausted :: env where
  "env_pool_exhausted =
     \<lparr>faults = [OpGetConn], environ = Map.empty, int_max_str_digits = 4300, now = 2000,
      conn_handle = 1\<rparr>"

text \<open>
  An environment that sets the host, the port (with white space around it and an
  underscore in it) and the user, and one whose port ends in the separator character 31,
  which \<^verbatim>\<open>int\<close> refuses.
\<close>

definition env_configured :: env where
  "env_configured =
     \<lparr>faults = [],
      environ = [''DATABASE_HOST'' \<mapsto> ''db.internal'', ''DATABASE_PORT'' \<mapsto> '' 6_543 '',
                 ''DATABASE_USER'' \<mapsto> ''svc''],
      int_max_str_digits = 4300, now = 1000, conn_handle = 1\<rparr>"

definition env_bad_port :: env where
  "env_bad_port =
     \<lparr>faults = [], environ = [''DATABASE_PORT'' \<mapsto> ''5432'' @ [CHR 0x1F]],
      int_max_str_digits = 4300, now = 1000, conn_handle = 1\<rparr>"

definition args_running :: update_args where
  "args_running =
     \<lparr>arg_job_id = ''job1'', arg_series_id = ''AAPL'', arg_status = ''running'',
      arg_stage = ''ingestion'', arg_error_message = None, arg_metadata = None\<rparr>"

definition args_failed :: update_args where
  "args_failed =
     \<lparr>arg_job_id = ''job1'', arg_series_id = ''AAPL'', arg_status = ''failed'',
      arg_stage = ''preprocessing'', arg_error_message = Some ''boom'',
      arg_metadata = Some [(''a'', JNum 1), (''n'', JObj [(''x'', JNum 1)])]\<rparr>"

definition args_completed :: update_args where
  "args_completed =
     \<lparr>arg_job_id = ''job1'', arg_series_id = ''MSFT'', arg_status = ''completed'',
      arg_stage = ''forecasting'', arg_error_message = None,
      arg_metadata = Some [(''b'', JNum 2), (''n'', JObj [(''y'', JNum 2)])]\<rparr>"

definition args_empty_dict :: update_args where
  "args_empty_dict =
     \<lparr>arg_job_id = ''job1'', arg_series_id = ''AAPL'', arg_status = ''running'',
      arg_stage = ''ingestion'', arg_error_message = None, arg_metadata = Some []\<rparr>"

definition args_other_job :: update_args where
  "args_other_job =
     \<lparr>arg_job_id = ''job2'', arg_series_id = ''GOOG'', arg_status = ''running'',
      arg_stage = ''anomaly'', arg_error_message = None, arg_metadata = None\<rparr>"

text \<open>The worlds after a first call for \<^verbatim>\<open>job1\<close>: without metadata, and failed with metadata.\<close>

definition world_running :: world where
  "world_running = snd (update_status env_ok args_running world_start)"

definition world_failed :: world where
  "world_failed = snd (update_status env_ok args_failed world_start)"

text \<open>Whether the second of two stored timestamps is strictly later than the first.\<close>

definition strictly_later :: "int option \<Rightarrow> int option \<Rightarrow> bool" where
  "strictly_later x y =
     (case x of
        None \<Rightarrow> False
      | Some u \<Rightarrow> (case y of None \<Rightarrow> False | Some v \<Rightarrow> u < v))"

subsection \<open>Threads in \<^verbatim>\<open>get_pool\<close>\<close>

text \<open>
  The pool is a \<^verbatim>\<open>ThreadedConnectionPool\<close> and callers may be on several threads; nothing
  in the class takes a lock. For them \<^verbatim>\<open>get_pool\<close> is not one step: a thread tests
  \<^verbatim>\<open>_pool\<close> (line 24), evaluates the arguments and runs the constructor (lines 25 to 34),
  stores the new pool in the class (line 25), logs (line 35) and reads \<^verbatim>\<open>_pool\<close> to return
  it (line 36), and another thread can run between any two of these. \<open>get_pool_step\<close> is
  one such step of one thread, from where that thread stands.
\<close>

datatype get_pool_pc =
    AtTest
  | AtConstruct
  | AtStore threaded_connection_pool
  | AtLog
  | AtReturn
  | Returned "threaded_connection_pool option"
  | Failed exn

definition get_pool_step :: "env \<Rightarrow> get_pool_pc \<Rightarrow> world \<Rightarrow> get_pool_pc \<times> world" where
  "get_pool_step e pc w =
     (case pc of
        AtTest \<Rightarrow> (if cls_pool w = None then AtConstruct else AtReturn, w)
      | AtConstruct \<Rightarrow>
          (case py_int (int_max_str_digits e) (getenv e ''DATABASE_PORT'' ''5432'') of
             None \<Rightarrow> (Failed ValueError, w)
           | Some p \<Rightarrow>
               if raises e OpPoolCtor then (Failed (Raised OpPoolCtor), w)
               else (AtStore (pool_config e p), emit [PoolCreated (pool_config e p)] w))
      | AtStore pl \<Rightarrow> (AtLog, w\<lparr>cls_pool := Some pl\<rparr>)
      | AtLog \<Rightarrow> (AtReturn, emit [LogPoolInitialized] w)
      | AtReturn \<Rightarrow> (Returned (cls_pool w), w)
      | Returned r \<Rightarrow> (Returned r, w)
      | Failed x \<Rightarrow> (Failed x, w))"

text \<open>One thread running \<^verbatim>\<open>get_pool\<close> from its start with no other thread in between.\<close>

definition get_pool_alone :: "env \<Rightarrow> world \<Rightarrow> get_pool_pc \<times> world" where
  "get_pool_alone e w =
     (case get_pool_step e AtTest w of (pc1, w1) \<Rightarrow>
      case get_pool_step e pc1 w1 of (pc2, w2) \<Rightarrow>
      case get_pool_step e pc2 w2 of (pc3, w3) \<Rightarrow>
      case get_pool_step e pc3 w3 of (pc4, w4) \<Rightarrow>
      get_pool_step e pc4 w4)"

text \<open>
  Two threads of one process in \<^verbatim>\<open>get_pool\<close>, run in the order a schedule gives: each
  entry of the schedule lets the named thread take its next step.
\<close>

datatype thread = ThreadA | ThreadB

fun interleave ::
  "env \<Rightarrow> thread list \<Rightarrow> get_pool_pc \<times> get_pool_pc \<times> world \<Rightarrow> get_pool_pc \<times> get_pool_pc \<times> world"
where
  "interleave e [] s = s"
| "interleave e (ThreadA # ts) (pa, pb, w) =
     (case get_pool_step e pa w of (pa', w') \<Rightarrow> interleave e ts (pa', pb, w'))"
| "interleave e (ThreadB # ts) (pa, pb, w) =
     (case get_pool_step e pb w of (pb', w') \<Rightarrow> interleave e ts (pa, pb', w'))"


text \<open>Thread A runs \<^verbatim>\<open>get_pool\<close> to its end, then thread B does.\<close>

definition schedule_one_after_the_other :: "thread list" where
  "schedule_one_after_the_other =
     [ThreadA, ThreadA, ThreadA, ThreadA, ThreadA, ThreadB, ThreadB, ThreadB]"

section \<open>Properties of the operations\<close>

subsection \<open>\<^verbatim>\<open>get_pool\<close>\<close>

lemmas us_defs = update_status_def try_block_def except_block_def
  finally_block_def emit_def Let_def

lemma get_pool_frame:
  "pipeline_jobs (snd (get_pool e w)) = pipeline_jobs w"
  "checked_out (snd (get_pool e w)) = checked_out w"
  by (simp_all add: get_pool_def emit_def split: option.splits)

lemma get_pool_trace:
  "trace (snd (get_pool e w)) =
     trace w @ (if cls_pool w = None \<and> \<not> isl (fst (get_pool e w))
                then [PoolCreated (projr (fst (get_pool e w))), LogPoolInitialized] else [])"
  by (simp add: get_pool_def emit_def split: option.splits)

lemma get_pool_reuse: "cls_pool w = Some pl \<Longrightarrow> get_pool e w = (Inr pl, w)"
  by (simp add: get_pool_def)


lemma get_pool_fails_fresh: "isl (fst (get_pool e w)) \<Longrightarrow> cls_pool w = None"
  by (simp add: get_pool_def split: option.splits)



subsection \<open>The table\<close>

lemma job_id_do_update: "job_id (do_update r ex t) = job_id r"
  by (simp add: do_update_def)

lemma lookup_insert_on_conflict:
  "lookup_job j (insert_on_conflict ex t rs) =
     (if j = job_id ex
      then Some (case lookup_job j rs of None \<Rightarrow> ex | Some r \<Rightarrow> do_update r ex t)
      else lookup_job j rs)"
  by (induction rs) (auto simp: lookup_job_def job_id_do_update)

lemma insert_on_conflict_absent:
  "lookup_job (job_id ex) rs = None \<Longrightarrow> insert_on_conflict ex t rs = rs @ [ex]"
  by (induction rs) (auto simp: lookup_job_def split: if_splits)




subsection \<open>\<^verbatim>\<open>update_status\<close>, one field of the world at a time\<close>

lemma commits_iff:
  "commits e a w \<longleftrightarrow>
     \<not> isl (fst (get_pool e w)) \<and> \<not> raises e OpGetConn \<and> \<not> raises e OpCursor \<and>
     \<not> (truthy (arg_metadata a) \<and> raises e OpDumps) \<and> \<not> raises e OpExecute \<and>
     \<not> raises e OpCommit"
proof (cases "get_pool e w")
  case (Pair r w1)
  have t: "trace w1 = trace w @ (if cls_pool w = None \<and> \<not> isl r
                then [PoolCreated (projr r), LogPoolInitialized] else [])"
    using get_pool_trace [of e w] Pair by simp
  show ?thesis
    by (cases r) (simp_all add: commits_def call_trace_def us_defs Pair t)
qed

lemma update_status_rows:
  "pipeline_jobs (snd (update_status e a w)) =
     (if commits e a w then insert_on_conflict (excluded a (now e)) (now e) (pipeline_jobs w)
      else pipeline_jobs w)"
proof (cases "get_pool e w")
  case (Pair r w1)
  have j: "pipeline_jobs w1 = pipeline_jobs w"
    using get_pool_frame(1) [of e w] Pair by simp
  show ?thesis
    by (cases r) (simp_all add: commits_iff us_defs Pair j)
qed

lemma update_status_result:
  "fst (update_status e a w) = Inr () \<or> fst (update_status e a w) = Inl (Raised OpRollback)"
  by (simp add: us_defs split: option.splits sum.splits prod.splits)

lemma update_status_swallows:
  "\<not> raises e OpRollback \<Longrightarrow> fst (update_status e a w) = Inr ()"
  by (simp add: us_defs split: option.splits sum.splits prod.splits)

lemma update_status_checked_out: "checked_out (snd (update_status e a w)) = checked_out w"
proof (cases "get_pool e w")
  case (Pair r w1)
  have j: "checked_out w1 = checked_out w"
    using get_pool_frame(2) [of e w] Pair by simp
  show ?thesis
    by (cases r) (simp_all add: us_defs Pair j)
qed



lemma conn_taken_iff:
  "ConnTaken c \<in> set (call_trace e a w) \<longleftrightarrow>
     c = conn_handle e \<and> \<not> isl (fst (get_pool e w)) \<and> \<not> raises e OpGetConn"
proof (cases "get_pool e w")
  case (Pair r w1)
  have t: "trace w1 = trace w @ (if cls_pool w = None \<and> \<not> isl r
                then [PoolCreated (projr r), LogPoolInitialized] else [])"
    using get_pool_trace [of e w] Pair by simp
  show ?thesis
    by (cases r) (auto simp add: call_trace_def us_defs Pair t)
qed

lemma conn_returned_last:
  "\<not> isl (fst (get_pool e w)) \<Longrightarrow> \<not> raises e OpGetConn \<Longrightarrow>
     last (call_trace e a w) = ConnReturned (conn_handle e) \<and>
     count_list (call_trace e a w) (ConnReturned (conn_handle e)) = 1"
proof (cases "get_pool e w")
  case (Pair r w1)
  assume ok: "\<not> isl (fst (get_pool e w))" "\<not> raises e OpGetConn"
  have t: "trace w1 = trace w @ (if cls_pool w = None \<and> \<not> isl r
                then [PoolCreated (projr r), LogPoolInitialized] else [])"
    using get_pool_trace [of e w] Pair by simp
  from ok show ?thesis
    by (cases r) (simp_all add: call_trace_def us_defs Pair t)
qed

text \<open>
  A failure in the \<^verbatim>\<open>try\<close> block is logged; with a connection in hand the transaction is
  rolled back, unless \<^verbatim>\<open>rollback\<close> raises.
\<close>

lemma failure_is_logged:
  "fst (try_block e a w) = Inl x \<Longrightarrow> LogFailed x \<in> set (call_trace e a w)"
proof (cases "get_pool e w")
  case (Pair r w1)
  assume f: "fst (try_block e a w) = Inl x"
  have t: "trace w1 = trace w @ (if cls_pool w = None \<and> \<not> isl r
                then [PoolCreated (projr r), LogPoolInitialized] else [])"
    using get_pool_trace [of e w] Pair by simp
  from f show ?thesis
    by (cases r) (auto simp add: call_trace_def us_defs Pair t split: if_splits)
qed

lemma failure_is_rolled_back:
  "isl (fst (try_block e a w)) \<Longrightarrow> ConnTaken c \<in> set (call_trace e a w) \<Longrightarrow>
     \<not> raises e OpRollback \<Longrightarrow> RolledBack c \<in> set (call_trace e a w)"
proof (cases "get_pool e w")
  case (Pair r w1)
  assume f: "isl (fst (try_block e a w))" "ConnTaken c \<in> set (call_trace e a w)"
    "\<not> raises e OpRollback"
  have t: "trace w1 = trace w @ (if cls_pool w = None \<and> \<not> isl r
                then [PoolCreated (projr r), LogPoolInitialized] else [])"
    using get_pool_trace [of e w] Pair by simp
  from f show ?thesis
    by (cases r) (auto simp add: call_trace_def us_defs Pair t split: if_splits)
qed

lemma failed_write_changes_no_row:
  "\<not> commits e a w \<Longrightarrow> pipeline_jobs (snd (update_status e a w)) = pipeline_jobs w"
  by (simp add: update_status_rows)

subsection \<open>Sequences of calls\<close>





lemma series_id_update_status:
  "lookup_job j (pipeline_jobs w) = Some r \<Longrightarrow>
     \<exists>r'. lookup_job j (pipeline_jobs (snd (update_status e a w))) = Some r' \<and>
          series_id r' = series_id r"
  by (auto simp: update_status_rows lookup_insert_on_conflict do_update_def)





subsection \<open>Evaluating the concrete calls\<close>

lemmas example_defs = world_start_def env_ok_def env_later_def env_clock_back_def
  env_conn_lost_def env_pool_exhausted_def env_configured_def env_bad_port_def args_running_def args_failed_def
  args_completed_def args_empty_dict_def args_other_job_def

lemmas eval_defs = update_status_def try_block_def get_pool_def except_block_def
  finally_block_def emit_def Let_def raises_def getenv_def pool_config_def py_int_def
  py_strip_def py_isspace_def digit_val_def digit_count_def over_cap_def truthy_def
  excluded_def metadata_param_def
  jsonb_in_def do_update_def jsonb_concat_def lookup_job_def

lemma world_running_eq:
  "pipeline_jobs world_running =
     [\<lparr>job_id = ''job1'', series_id = ''AAPL'', status = ''running'', stage = ''ingestion'',
       error_message = None, metadata = None, updated_at = 1000\<rparr>]"
  "cls_pool world_running = Some (pool_config env_ok 5432)"
  by (simp_all add: world_running_def example_defs eval_defs)

lemma world_failed_eq:
  "pipeline_jobs world_failed =
     [\<lparr>job_id = ''job1'', series_id = ''AAPL'', status = ''failed'', stage = ''preprocessing'',
       error_message = Some ''boom'',
       metadata = Some [''a'' \<mapsto> JNum 1, ''n'' \<mapsto> JObj [(''x'', JNum 1)]],
       updated_at = 1000\<rparr>]"
  "cls_pool world_failed = Some (pool_config env_ok 5432)"
  by (simp_all add: world_failed_def example_defs eval_defs)

lemma commits_with_pool:
  "faults e = [] \<Longrightarrow> cls_pool w = Some pl \<Longrightarrow> commits e a w"
  by (simp add: commits_iff get_pool_reuse raises_def)

lemma commits_at_start:
  "faults e = [] \<Longrightarrow> environ e ''DATABASE_PORT'' = None \<Longrightarrow> commits e a w"
  by (simp add: commits_iff get_pool_def raises_def getenv_def py_int_def py_strip_def
        py_isspace_def digit_val_def digit_count_def over_cap_def split: option.splits)

lemma job_id_excluded: "job_id (excluded a t) = arg_job_id a"
  by (simp add: excluded_def)

lemma row_after_commit:
  "commits e a w \<Longrightarrow>
     lookup_job (arg_job_id a) (pipeline_jobs (snd (update_status e a w))) =
       Some (case lookup_job (arg_job_id a) (pipeline_jobs w) of
               None \<Rightarrow> excluded a (now e)
             | Some r \<Rightarrow> do_update r (excluded a (now e)) (now e))"
  by (simp add: update_status_rows lookup_insert_on_conflict job_id_excluded)

lemma other_rows_untouched:
  "\<not> commits e a w \<or> arg_job_id a \<noteq> j \<Longrightarrow>
     lookup_job j (pipeline_jobs (snd (update_status e a w))) = lookup_job j (pipeline_jobs w)"
  by (auto simp: update_status_rows lookup_insert_on_conflict job_id_excluded)

lemma shallow_merge_is_concat: "shallow_merge m n = m ++ n"
  by (simp add: shallow_merge_def map_add_def)

lemma shallow_merge_keys: "dom (shallow_merge m n) = dom m \<union> dom n"
  by (simp add: shallow_merge_is_concat Un_commute)

lemma shallow_merge_new_wins: "n k = Some v \<Longrightarrow> shallow_merge m n k = Some v"
  by (simp add: shallow_merge_def)

lemma shallow_merge_old_kept: "n k = None \<Longrightarrow> shallow_merge m n k = m k"
  by (simp add: shallow_merge_def)

subsection \<open>\<^verbatim>\<open>int\<close> on concrete strings\<close>

lemma py_int_accepts:
  "py_int 4300 ''5432'' = Some 5432"
  "py_int 4300 '' -5_4 '' = Some (- 54)"
  "py_int 4300 ''+5'' = Some 5"
  "py_int 4300 ''0005'' = Some 5"
  "py_int 4300 (CHR 0xA0 # ''5432'' @ [CHR 0x09, CHR 0x85]) = Some 5432"
  by (simp_all add: py_int_def py_strip_def py_isspace_def digit_val_def digit_count_def
        over_cap_def)

lemma py_int_refuses:
  "py_int 4300 [] = None"
  "py_int 4300 '' '' = None"
  "py_int 4300 ''-'' = None"
  "py_int 4300 ''+ 5'' = None"
  "py_int 4300 ''_5'' = None"
  "py_int 4300 ''5_'' = None"
  "py_int 4300 ''5__4'' = None"
  "py_int 4300 ''5 4'' = None"
  "py_int 4300 ''54a'' = None"
  "py_int 4300 (''5432'' @ [CHR 0x1F]) = None"
  "py_int 4300 (CHR 0x1C # ''5432'') = None"
  by (simp_all add: py_int_def py_strip_def py_isspace_def digit_val_def digit_count_def
        over_cap_def)

lemma py_int_over_cap: "over_cap m (py_strip s) \<Longrightarrow> py_int m s = None"
proof (cases "py_strip s")
  case Nil
  then show ?thesis by (simp add: py_int_def)
next
  case (Cons c cs)
  assume o: "over_cap m (py_strip s)"
  have sign: "digit_count (c # cs) = digit_count cs" if "c = CHR ''-'' \<or> c = CHR ''+''"
    using that by (auto simp: digit_count_def digit_val_def)
  from o Cons sign show ?thesis
    by (auto simp: py_int_def over_cap_def)
qed

lemma get_pool_bad_port:
  "get_pool env_bad_port world_start = (Inl ValueError, world_start)"
  by (simp add: get_pool_def env_bad_port_def world_start_def getenv_def py_int_def
        py_strip_def py_isspace_def digit_val_def digit_count_def over_cap_def)


subsection \<open>Threads in \<^verbatim>\<open>get_pool\<close>\<close>

text \<open>A thread that runs alone does what \<open>get_pool\<close> does.\<close>

lemma get_pool_alone_eq:
  "get_pool_alone e w =
     (case get_pool e w of
        (Inl x, w') \<Rightarrow> (Failed x, w')
      | (Inr pl, w') \<Rightarrow> (Returned (Some pl), w'))"
  by (simp add: get_pool_alone_def get_pool_step_def get_pool_def emit_def
        split: option.splits)

lemma two_threads_one_after_the_other:
  "pools_created
     (snd (snd (interleave env_ok schedule_one_after_the_other (AtTest, AtTest, world_start)))) = 1"
  by (simp add: schedule_one_after_the_other_def get_pool_step_def pools_created_def
        example_defs eval_defs)

section \<open>The claims\<close>

subsection \<open>C1: metadata is merged\<close>

text \<open>
  C1, as amended. When a call for a job that already has a stored record commits, the stored
  metadata after it is the shallow merge of the old stored metadata with the metadata the
  call supplies, as \<open>spec_metadata\<close> spells out (the keys of both, the new value for a key
  of both, the old value for a key the call does not mention; the old metadata unchanged
  when the call supplies none; the new metadata as it is when there was none), with one
  exception: a call that supplies the empty dictionary leaves the stored metadata as it
  was, NULL included.
\<close>

theorem metadata_merged_on_update:
  assumes "commits e a w"
    and "lookup_job (arg_job_id a) (pipeline_jobs w) = Some r"
  shows "stored metadata (arg_job_id a) (snd (update_status e a w)) =
           Some (if arg_metadata a = Some [] then metadata r
                 else spec_metadata (metadata r) (supplied_metadata a))"
proof -
  have "stored metadata (arg_job_id a) (snd (update_status e a w)) =
          Some (coalesce [jsonb_concat (metadata r) (metadata_param (arg_metadata a)),
                          metadata r, metadata_param (arg_metadata a)])"
    using assms by (simp add: stored_def row_after_commit do_update_def excluded_def)
  also have "coalesce [jsonb_concat (metadata r) (metadata_param (arg_metadata a)),
                       metadata r, metadata_param (arg_metadata a)] =
             (if arg_metadata a = Some [] then metadata r
              else spec_metadata (metadata r) (supplied_metadata a))"
  proof (cases "arg_metadata a")
    case None
    then show ?thesis
      by (cases "metadata r")
        (simp_all add: metadata_param_def jsonb_concat_def spec_metadata_def
          supplied_metadata_def)
  next
    case (Some kvs)
    then show ?thesis
      by (cases "metadata r")
        (simp_all add: metadata_param_def truthy_def jsonb_concat_def spec_metadata_def
          supplied_metadata_def shallow_merge_is_concat)
  qed
  finally show ?thesis .
qed

text \<open>
  A record with metadata \<^verbatim>\<open>{"a": 1, "n": {"x": 1}}\<close> and a call with
  \<^verbatim>\<open>{"b": 2, "n": {"y": 2}}\<close>: the keys of both, and the nested object replaced whole.
\<close>

theorem metadata_merged_on_update_witness:
  "commits env_later args_completed world_failed \<and>
   stored metadata ''job1'' world_failed =
     Some (Some [''a'' \<mapsto> JNum 1, ''n'' \<mapsto> JObj [(''x'', JNum 1)]]) \<and>
   stored metadata ''job1'' (snd (update_status env_later args_completed world_failed)) =
     Some (Some [''a'' \<mapsto> JNum 1, ''b'' \<mapsto> JNum 2, ''n'' \<mapsto> JObj [(''y'', JNum 2)]])"
proof -
  have c: "commits env_later args_completed world_failed"
    by (rule commits_with_pool [OF _ world_failed_eq(2)]) (simp add: env_later_def)
  have l: "lookup_job (arg_job_id args_completed) (pipeline_jobs world_failed) =
             Some (hd (pipeline_jobs world_failed))"
    by (simp add: world_failed_eq(1) args_completed_def lookup_job_def)
  have m: "shallow_merge [''a'' \<mapsto> JNum 1, ''n'' \<mapsto> JObj [(''x'', JNum 1)]]
             (jsonb_in [(''b'', JNum 2), (''n'', JObj [(''y'', JNum 2)])]) =
           [''a'' \<mapsto> JNum 1, ''b'' \<mapsto> JNum 2, ''n'' \<mapsto> JObj [(''y'', JNum 2)]]"
    by (auto simp: shallow_merge_def jsonb_in_def fun_eq_iff)
  from metadata_merged_on_update [OF c l] c m show ?thesis
    by (simp add: stored_def world_failed_eq(1) args_completed_def lookup_job_def
          spec_metadata_def supplied_metadata_def)
qed

text \<open>
  C1 as it is written fails where the record has no metadata and the call supplies the
  empty dictionary: the claim has \<^verbatim>\<open>{}\<close> stored as it is, the column stays NULL.
\<close>

theorem metadata_empty_dict_counterexample:
  "commits env_later args_empty_dict world_running \<and>
   stored metadata ''job1'' world_running = Some None \<and>
   supplied_metadata args_empty_dict = Some Map.empty \<and>
   spec_metadata None (supplied_metadata args_empty_dict) = Some Map.empty \<and>
   stored metadata ''job1'' (snd (update_status env_later args_empty_dict world_running)) =
     Some None \<and>
   stored metadata ''job1'' (snd (update_status env_later args_empty_dict world_running)) \<noteq>
     Some (spec_metadata None (supplied_metadata args_empty_dict))"
proof -
  have c: "commits env_later args_empty_dict world_running"
    by (rule commits_with_pool [OF _ world_running_eq(2)]) (simp add: env_later_def)
  from row_after_commit [OF c] c show ?thesis
    by (simp add: stored_def world_running_eq(1) args_empty_dict_def lookup_job_def
          do_update_def excluded_def metadata_param_def truthy_def jsonb_concat_def
          spec_metadata_def supplied_metadata_def jsonb_in_def)
qed

subsection \<open>C2: failures and the caller\<close>

text \<open>
  C2 does not hold of the code. A failure in the \<^verbatim>\<open>try\<close> block is caught and logged
  (\<open>failure_is_logged\<close>), a write that fails before its commit leaves the table as it
  was (\<open>failed_write_changes_no_row\<close>; a failure after the commit, in \<^verbatim>\<open>cursor.close\<close>,
  leaves the row stored), and the call returns normally whenever \<^verbatim>\<open>rollback\<close> does
  (\<open>update_status_swallows\<close>).
  But \<^verbatim>\<open>conn.rollback()\<close> on line 96 is itself unguarded: when the server connection is lost
  while the statement runs, \<^verbatim>\<open>execute\<close> raises, the handler logs, \<^verbatim>\<open>rollback\<close> raises on
  the dead connection, and that exception reaches the caller after the \<^verbatim>\<open>finally\<close>
  clause has run.
\<close>

theorem update_status_raises_when_rollback_raises:
  "fst (update_status env_conn_lost args_running world_start) = Inl (Raised OpRollback) \<and>
   call_trace env_conn_lost args_running world_start =
     [PoolCreated (pool_config env_conn_lost 5432), LogPoolInitialized, ConnTaken 1,
      CursorOpened, LogFailed (Raised OpExecute), ConnReturned 1] \<and>
   pipeline_jobs (snd (update_status env_conn_lost args_running world_start)) = []"
  by (simp add: call_trace_def example_defs eval_defs)

subsection \<open>C3: status, stage and error message are replaced\<close>

text \<open>
  C3. When a call for a job that already has a stored record commits, the stored status,
  stage and error message are those of the call, whatever was stored before; an absent
  error message is stored as NULL, so it clears an earlier error. (The metadata column is
  the one that is merged, see C1.)
\<close>

theorem status_stage_error_replaced:
  assumes "commits e a w"
    and "lookup_job (arg_job_id a) (pipeline_jobs w) = Some r"
  shows "stored status (arg_job_id a) (snd (update_status e a w)) = Some (arg_status a) \<and>
         stored stage (arg_job_id a) (snd (update_status e a w)) = Some (arg_stage a) \<and>
         stored error_message (arg_job_id a) (snd (update_status e a w)) =
           Some (arg_error_message a)"
  using assms by (simp add: stored_def row_after_commit do_update_def excluded_def)

theorem status_stage_error_replaced_witness:
  "commits env_later args_completed world_failed \<and>
   stored status ''job1'' world_failed = Some ''failed'' \<and>
   stored error_message ''job1'' world_failed = Some (Some ''boom'') \<and>
   stored status ''job1'' (snd (update_status env_later args_completed world_failed)) =
     Some ''completed'' \<and>
   stored stage ''job1'' (snd (update_status env_later args_completed world_failed)) =
     Some ''forecasting'' \<and>
   stored error_message ''job1'' (snd (update_status env_later args_completed world_failed)) =
     Some None"
proof -
  have c: "commits env_later args_completed world_failed"
    by (rule commits_with_pool [OF _ world_failed_eq(2)]) (simp add: env_later_def)
  have l: "lookup_job (arg_job_id args_completed) (pipeline_jobs world_failed) =
             Some (hd (pipeline_jobs world_failed))"
    by (simp add: world_failed_eq(1) args_completed_def lookup_job_def)
  from status_stage_error_replaced [OF c l] c show ?thesis
    by (simp add: stored_def world_failed_eq(1) args_completed_def lookup_job_def)
qed

subsection \<open>C4: the first write creates the record\<close>

text \<open>
  C4, as amended. When a call for a job that has no stored record commits, exactly one row
  is added to the table and no other row changes; the new row holds the call's job id,
  series id, status, stage and error message, the server time of the write as
  \<^verbatim>\<open>updated_at\<close>, and as metadata the call's dictionary when it is not empty, NULL when
  the call supplies no metadata or the empty dictionary.
\<close>

theorem first_write_creates_one_record:
  assumes "commits e a w"
    and "lookup_job (arg_job_id a) (pipeline_jobs w) = None"
  shows "pipeline_jobs (snd (update_status e a w)) =
           pipeline_jobs w @
           [\<lparr>job_id = arg_job_id a, series_id = arg_series_id a, status = arg_status a,
             stage = arg_stage a, error_message = arg_error_message a,
             metadata = (if arg_metadata a = Some [] then None else supplied_metadata a),
             updated_at = now e\<rparr>]"
proof -
  have "lookup_job (job_id (excluded a (now e))) (pipeline_jobs w) = None"
    using assms(2) by (simp add: job_id_excluded)
  then have "pipeline_jobs (snd (update_status e a w)) = pipeline_jobs w @ [excluded a (now e)]"
    using assms(1) by (simp add: update_status_rows insert_on_conflict_absent)
  moreover have "metadata_param (arg_metadata a) =
                   (if arg_metadata a = Some [] then None else supplied_metadata a)"
    by (cases "arg_metadata a") (simp_all add: metadata_param_def truthy_def supplied_metadata_def)
  ultimately show ?thesis
    by (simp add: excluded_def)
qed

theorem first_write_creates_one_record_witness:
  "commits env_ok args_failed world_start \<and>
   lookup_job ''job1'' (pipeline_jobs world_start) = None \<and>
   pipeline_jobs (snd (update_status env_ok args_failed world_start)) =
     [\<lparr>job_id = ''job1'', series_id = ''AAPL'', status = ''failed'', stage = ''preprocessing'',
       error_message = Some ''boom'',
       metadata = Some [''a'' \<mapsto> JNum 1, ''n'' \<mapsto> JObj [(''x'', JNum 1)]],
       updated_at = 1000\<rparr>]"
proof -
  have c: "commits env_ok args_failed world_start"
    by (rule commits_at_start) (simp_all add: env_ok_def)
  have l: "lookup_job (arg_job_id args_failed) (pipeline_jobs world_start) = None"
    by (simp add: world_start_def lookup_job_def)
  from first_write_creates_one_record [OF c l] c show ?thesis
    by (simp add: world_start_def args_failed_def env_ok_def lookup_job_def
          supplied_metadata_def jsonb_in_def)
qed

text \<open>
  C4 as it is written fails at the empty dictionary: the claim has the metadata stored as
  given, \<^verbatim>\<open>{}\<close>, and the new row's metadata is NULL.
\<close>

theorem first_write_empty_dict_counterexample:
  "commits env_ok args_empty_dict world_start \<and>
   lookup_job ''job1'' (pipeline_jobs world_start) = None \<and>
   supplied_metadata args_empty_dict = Some Map.empty \<and>
   stored metadata ''job1'' (snd (update_status env_ok args_empty_dict world_start)) =
     Some None \<and>
   stored metadata ''job1'' (snd (update_status env_ok args_empty_dict world_start)) \<noteq>
     Some (supplied_metadata args_empty_dict)"
proof -
  have c: "commits env_ok args_empty_dict world_start"
    by (rule commits_at_start) (simp_all add: env_ok_def)
  from row_after_commit [OF c] c show ?thesis
    by (simp add: stored_def world_start_def args_empty_dict_def lookup_job_def
          excluded_def metadata_param_def truthy_def supplied_metadata_def jsonb_in_def)
qed

subsection \<open>C6: the connection goes back to the pool\<close>

text \<open>
  C6. A call that took a connection from the pool hands that connection back: the return is
  the last thing the call does, it happens once, and the connections out of the pool after
  the call are those before it. This holds when the write commits, when any step of the
  write raises, and when \<^verbatim>\<open>rollback\<close> raises and the call ends with an exception.
\<close>

theorem connection_always_returned:
  assumes "ConnTaken c \<in> set (call_trace e a w)"
  shows "last (call_trace e a w) = ConnReturned c \<and>
         count_list (call_trace e a w) (ConnReturned c) = 1 \<and>
         checked_out (snd (update_status e a w)) = checked_out w"
  using assms conn_returned_last [of e w a]
  by (simp add: conn_taken_iff update_status_checked_out)

theorem connection_always_returned_witness:
  "ConnTaken 1 \<in> set (call_trace env_ok args_running world_start) \<and>
   last (call_trace env_ok args_running world_start) = ConnReturned 1 \<and>
   ConnTaken 1 \<in> set (call_trace env_conn_lost args_running world_start) \<and>
   fst (update_status env_conn_lost args_running world_start) = Inl (Raised OpRollback) \<and>
   last (call_trace env_conn_lost args_running world_start) = ConnReturned 1 \<and>
   checked_out (snd (update_status env_conn_lost args_running world_start)) = []"
proof -
  have t1: "ConnTaken 1 \<in> set (call_trace env_ok args_running world_start)"
    by (simp add: call_trace_def example_defs eval_defs)
  have t2: "ConnTaken 1 \<in> set (call_trace env_conn_lost args_running world_start)"
    by (simp add: call_trace_def example_defs eval_defs)
  have r: "fst (update_status env_conn_lost args_running world_start) = Inl (Raised OpRollback)"
    by (simp add: example_defs eval_defs)
  have s: "checked_out world_start = []"
    by (simp add: world_start_def)
  from connection_always_returned [OF t1] connection_always_returned [OF t2] t1 t2 r s
  show ?thesis by simp
qed

subsection \<open>C5: one record per job\<close>



subsection \<open>C7: one pool, created on first use\<close>




subsection \<open>C8: \<^verbatim>\<open>updated_at\<close>\<close>

text \<open>
  C8, as amended. Every committed write sets the stored \<^verbatim>\<open>updated_at\<close> of its job to the
  server time \<^verbatim>\<open>NOW()\<close> of that write. Hence, of two successive committed writes for one
  job, the second leaves a strictly later \<^verbatim>\<open>updated_at\<close> exactly when the server clock
  read strictly later at the second write than at the first: the code takes the time as the
  server gives it and adds no ordering of its own.
\<close>

theorem updated_at_is_server_time:
  assumes "commits e1 a1 w"
    and "commits e2 a2 (snd (update_status e1 a1 w))"
    and "arg_job_id a2 = arg_job_id a1"
  shows "stored updated_at (arg_job_id a1) (snd (update_status e1 a1 w)) = Some (now e1) \<and>
         stored updated_at (arg_job_id a1)
           (snd (update_status e2 a2 (snd (update_status e1 a1 w)))) = Some (now e2) \<and>
         strictly_later
           (stored updated_at (arg_job_id a1) (snd (update_status e1 a1 w)))
           (stored updated_at (arg_job_id a1)
              (snd (update_status e2 a2 (snd (update_status e1 a1 w))))) =
           (now e1 < now e2)"
proof -
  have stamp: "stored updated_at (arg_job_id a) (snd (update_status e a v)) = Some (now e)"
    if "commits e a v" for e a v
    using that
    by (simp add: stored_def row_after_commit do_update_def excluded_def split: option.splits)
  have s1: "stored updated_at (arg_job_id a1) (snd (update_status e1 a1 w)) = Some (now e1)"
    using assms(1) by (rule stamp)
  have s2: "stored updated_at (arg_job_id a1)
              (snd (update_status e2 a2 (snd (update_status e1 a1 w)))) = Some (now e2)"
    using stamp [OF assms(2)] assms(3) by simp
  from s1 s2 show ?thesis
    by (simp add: strictly_later_def)
qed

theorem updated_at_is_server_time_witness:
  "commits env_ok args_running world_start \<and>
   commits env_later args_completed (snd (update_status env_ok args_running world_start)) \<and>
   stored updated_at ''job1'' (snd (update_status env_ok args_running world_start)) =
     Some 1000 \<and>
   stored updated_at ''job1''
     (snd (update_status env_later args_completed
        (snd (update_status env_ok args_running world_start)))) = Some 2000 \<and>
   strictly_later
     (stored updated_at ''job1'' (snd (update_status env_ok args_running world_start)))
     (stored updated_at ''job1''
        (snd (update_status env_later args_completed
           (snd (update_status env_ok args_running world_start)))))"
proof -
  have c1: "commits env_ok args_running world_start"
    by (rule commits_at_start) (simp_all add: env_ok_def)
  have c2: "commits env_later args_completed (snd (update_status env_ok args_running world_start))"
    using commits_with_pool [OF _ world_running_eq(2), of env_later args_completed]
    by (simp add: env_later_def world_running_def)
  have j: "arg_job_id args_completed = arg_job_id args_running"
    by (simp add: args_completed_def args_running_def)
  from updated_at_is_server_time [OF c1 c2 j] c1 c2 show ?thesis
    by (simp add: args_running_def env_ok_def env_later_def strictly_later_def)
qed

text \<open>
  C8 as it is written fails when the server clock does not advance between two writes:
  the first write commits at server time 1000, the clock is set back, the second write for
  the same job commits at server time 900, and \<^verbatim>\<open>updated_at\<close> goes from 1000 to 900.
\<close>

theorem updated_at_clock_set_back_counterexample:
  "commits env_ok args_running world_start \<and>
   commits env_clock_back args_completed world_running \<and>
   stored updated_at ''job1'' world_running = Some 1000 \<and>
   stored updated_at ''job1'' (snd (update_status env_clock_back args_completed world_running)) =
     Some 900 \<and>
   \<not> strictly_later
       (stored updated_at ''job1'' world_running)
       (stored updated_at ''job1''
          (snd (update_status env_clock_back args_completed world_running)))"
proof -
  have c1: "commits env_ok args_running world_start"
    by (rule commits_at_start) (simp_all add: env_ok_def)
  have c2: "commits env_clock_back args_completed world_running"
    by (rule commits_with_pool [OF _ world_running_eq(2)]) (simp add: env_clock_back_def)
  from row_after_commit [OF c2] c1 c2 show ?thesis
    by (simp add: stored_def strictly_later_def world_running_eq(1) args_completed_def
          env_clock_back_def lookup_job_def do_update_def)
qed

subsection \<open>C9: the series id is written once\<close>

text \<open>
  C9. A job that has a stored record keeps the series id of that record through any
  sequence of calls, whatever series id the calls supply: the update branch assigns status,
  stage, error message, metadata and \<^verbatim>\<open>updated_at\<close> and nothing else. Those five columns do
  change, as the example after the theorem shows.
\<close>

theorem series_id_never_rewritten:
  assumes "lookup_job j (pipeline_jobs w) = Some r"
  shows "stored series_id j (run cs w) = Some (series_id r)"
  using assms
proof (induction cs arbitrary: w r)
  case Nil
  then show ?case by (simp add: stored_def)
next
  case (Cons c cs)
  obtain r' where
    r': "lookup_job j (pipeline_jobs (snd (update_status (fst c) (snd c) w))) = Some r'"
        "series_id r' = series_id r"
    using series_id_update_status [OF Cons.prems] by blast
  from Cons.IH [OF r'(1)] r'(2) show ?case by simp
qed

text \<open>
  The record was created for series \<^verbatim>\<open>AAPL\<close>; a later call for the same job supplies
  \<^verbatim>\<open>MSFT\<close>. The series id stays, the other five columns change.
\<close>

theorem series_id_never_rewritten_witness:
  "arg_series_id args_completed = ''MSFT'' \<and>
   stored series_id ''job1'' world_failed = Some ''AAPL'' \<and>
   stored series_id ''job1'' (run [(env_later, args_completed)] world_failed) = Some ''AAPL'' \<and>
   stored status ''job1'' world_failed = Some ''failed'' \<and>
   stored status ''job1'' (run [(env_later, args_completed)] world_failed) = Some ''completed'' \<and>
   stored stage ''job1'' world_failed = Some ''preprocessing'' \<and>
   stored stage ''job1'' (run [(env_later, args_completed)] world_failed) = Some ''forecasting'' \<and>
   stored error_message ''job1'' world_failed = Some (Some ''boom'') \<and>
   stored error_message ''job1'' (run [(env_later, args_completed)] world_failed) = Some None \<and>
   stored updated_at ''job1'' world_failed = Some 1000 \<and>
   stored updated_at ''job1'' (run [(env_later, args_completed)] world_failed) = Some 2000 \<and>
   stored metadata ''job1'' world_failed \<noteq>
     stored metadata ''job1'' (run [(env_later, args_completed)] world_failed)"
proof -
  have c: "commits env_later args_completed world_failed"
    by (rule commits_with_pool [OF _ world_failed_eq(2)]) (simp add: env_later_def)
  have l: "lookup_job ''job1'' (pipeline_jobs world_failed) = Some (hd (pipeline_jobs world_failed))"
    by (simp add: world_failed_eq(1) lookup_job_def)
  have m: "[''a'' \<mapsto> JNum 1, ''n'' \<mapsto> JObj [(''x'', JNum 1)]] \<noteq>
           [''a'' \<mapsto> JNum 1, ''n'' \<mapsto> JObj [(''x'', JNum 1)]] ++
             jsonb_in [(''b'', JNum 2), (''n'', JObj [(''y'', JNum 2)])]"
  proof
    assume "[''a'' \<mapsto> JNum 1, ''n'' \<mapsto> JObj [(''x'', JNum 1)]] =
           [''a'' \<mapsto> JNum 1, ''n'' \<mapsto> JObj [(''x'', JNum 1)]] ++
             jsonb_in [(''b'', JNum 2), (''n'', JObj [(''y'', JNum 2)])]"
    then have "[''a'' \<mapsto> JNum 1, ''n'' \<mapsto> JObj [(''x'', JNum 1)]] ''b'' =
           ([''a'' \<mapsto> JNum 1, ''n'' \<mapsto> JObj [(''x'', JNum 1)]] ++
             jsonb_in [(''b'', JNum 2), (''n'', JObj [(''y'', JNum 2)])]) ''b''"
      by simp
    then show False
      by (simp add: jsonb_in_def)
  qed
  from series_id_never_rewritten [OF l, of "[(env_later, args_completed)]"]
       row_after_commit [OF c] c m
  show ?thesis
    by (simp add: stored_def world_failed_eq(1) args_completed_def env_later_def
          lookup_job_def do_update_def excluded_def metadata_param_def truthy_def
          jsonb_concat_def)
qed

subsection \<open>C10: the empty dictionary is no metadata\<close>

text \<open>
  C10. A call with the empty dictionary as metadata does exactly what the same call with no
  metadata does: the same result, the same table, the same effects. When it commits, the
  stored metadata of the job is what it was before for a job that had a record, and NULL
  (not an empty object) for a job that had none.
\<close>

theorem empty_dict_is_no_metadata:
  "update_status e (a\<lparr>arg_metadata := Some []\<rparr>) w =
     update_status e (a\<lparr>arg_metadata := None\<rparr>) w \<and>
   (commits e (a\<lparr>arg_metadata := Some []\<rparr>) w \<longrightarrow>
      stored metadata (arg_job_id a) (snd (update_status e (a\<lparr>arg_metadata := Some []\<rparr>) w)) =
        Some (case lookup_job (arg_job_id a) (pipeline_jobs w) of
                None \<Rightarrow> None
              | Some r \<Rightarrow> metadata r))"
proof
  have same:
    "truthy (arg_metadata (a\<lparr>arg_metadata := Some []\<rparr>)) =
       truthy (arg_metadata (a\<lparr>arg_metadata := None\<rparr>))"
    "excluded (a\<lparr>arg_metadata := Some []\<rparr>) = excluded (a\<lparr>arg_metadata := None\<rparr>)"
    "arg_job_id (a\<lparr>arg_metadata := Some []\<rparr>) = arg_job_id (a\<lparr>arg_metadata := None\<rparr>)"
    "arg_status (a\<lparr>arg_metadata := Some []\<rparr>) = arg_status (a\<lparr>arg_metadata := None\<rparr>)"
    "arg_stage (a\<lparr>arg_metadata := Some []\<rparr>) = arg_stage (a\<lparr>arg_metadata := None\<rparr>)"
    by (simp_all add: truthy_def excluded_def metadata_param_def fun_eq_iff)
  have t: "try_block e (a\<lparr>arg_metadata := Some []\<rparr>) w = try_block e (a\<lparr>arg_metadata := None\<rparr>) w"
    unfolding try_block_def same by (rule refl)
  show "update_status e (a\<lparr>arg_metadata := Some []\<rparr>) w =
          update_status e (a\<lparr>arg_metadata := None\<rparr>) w"
    by (simp add: update_status_def t)
next
  show "commits e (a\<lparr>arg_metadata := Some []\<rparr>) w \<longrightarrow>
      stored metadata (arg_job_id a) (snd (update_status e (a\<lparr>arg_metadata := Some []\<rparr>) w)) =
        Some (case lookup_job (arg_job_id a) (pipeline_jobs w) of
                None \<Rightarrow> None
              | Some r \<Rightarrow> metadata r)"
  proof
    assume c: "commits e (a\<lparr>arg_metadata := Some []\<rparr>) w"
    show "stored metadata (arg_job_id a) (snd (update_status e (a\<lparr>arg_metadata := Some []\<rparr>) w)) =
        Some (case lookup_job (arg_job_id a) (pipeline_jobs w) of
                None \<Rightarrow> None
              | Some r \<Rightarrow> metadata r)"
    proof (cases "lookup_job (arg_job_id a) (pipeline_jobs w)")
      case None
      with row_after_commit [OF c] show ?thesis
        by (simp add: stored_def excluded_def metadata_param_def truthy_def)
    next
      case (Some r)
      with row_after_commit [OF c] show ?thesis
        by (cases "metadata r")
          (simp_all add: stored_def excluded_def do_update_def metadata_param_def truthy_def
            jsonb_concat_def)
    qed
  qed
qed

theorem empty_dict_is_no_metadata_witness:
  "update_status env_later args_empty_dict world_failed =
     update_status env_later args_running world_failed \<and>
   commits env_later args_empty_dict world_failed \<and>
   stored metadata ''job1'' (snd (update_status env_later args_empty_dict world_failed)) =
     Some (Some [''a'' \<mapsto> JNum 1, ''n'' \<mapsto> JObj [(''x'', JNum 1)]]) \<and>
   commits env_ok args_empty_dict world_start \<and>
   stored metadata ''job1'' (snd (update_status env_ok args_empty_dict world_start)) = Some None"
proof -
  have a: "args_empty_dict\<lparr>arg_metadata := Some []\<rparr> = args_empty_dict"
    "args_empty_dict\<lparr>arg_metadata := None\<rparr> = args_running"
    by (simp_all add: args_empty_dict_def args_running_def)
  have c1: "commits env_later args_empty_dict world_failed"
    by (rule commits_with_pool [OF _ world_failed_eq(2)]) (simp add: env_later_def)
  have c2: "commits env_ok args_empty_dict world_start"
    by (rule commits_at_start) (simp_all add: env_ok_def)
  have j: "arg_job_id args_empty_dict = ''job1''"
    by (simp add: args_empty_dict_def)
  note t1 = empty_dict_is_no_metadata [of env_later args_empty_dict world_failed, unfolded a]
  note t2 = empty_dict_is_no_metadata [of env_ok args_empty_dict world_start, unfolded a]
  have e1: "update_status env_later args_empty_dict world_failed =
              update_status env_later args_running world_failed"
    by (rule t1 [THEN conjunct1])
  have s1: "stored metadata ''job1'' (snd (update_status env_later args_empty_dict world_failed)) =
              Some (Some [''a'' \<mapsto> JNum 1, ''n'' \<mapsto> JObj [(''x'', JNum 1)]])"
    using t1 [THEN conjunct2, rule_format, OF c1]
    by (simp add: j world_failed_eq(1) lookup_job_def)
  have s2: "stored metadata ''job1'' (snd (update_status env_ok args_empty_dict world_start)) =
              Some None"
    using t2 [THEN conjunct2, rule_format, OF c2]
    by (simp add: j world_start_def lookup_job_def)
  from e1 c1 s1 c2 s2 show ?thesis
    by (intro conjI)
qed

end
